theory Spec2Isabelle
  imports Complex_Main "HOL-Library.Word" "HOL-Library.AList"
begin

section \<open>Bytes, strings and errors\<close>

text \<open>
  A Go \<^verbatim>\<open>string\<close> is a sequence of bytes; it is modelled by an Isabelle \<^typ>\<open>string\<close>
  (a list of 8-bit characters). A Go \<^verbatim>\<open>[]byte\<close> is a list of 8-bit words. The
  conversion \<^verbatim>\<open>[]byte(s)\<close> copies the bytes of the string.
\<close>

type_synonym byte = "8 word"
type_synonym bytes = "byte list"

definition bytesOf :: "string \<Rightarrow> bytes" where
  "bytesOf s = map (\<lambda>c. of_nat (of_char c)) s"

definition stringOf :: "bytes \<Rightarrow> string" where
  "stringOf b = map (\<lambda>w. char_of (unat w)) b"

text \<open>
  The error values the modelled functions return. \<open>ErrNotFound\<close> is the package's own
  error; \<open>ErrKeyNotFound\<close>, \<open>ErrReadOnlyTxn\<close>, \<open>ErrDiscardedTxn\<close> and \<open>ErrEmptyKey\<close>
  are the engine's; \<open>CodecError\<close> stands for whatever the bound encoder or decoder
  returns, \<open>EngineError\<close> for any other failure of the engine.
\<close>

datatype error =
    ErrNotFound
  | ErrKeyNotFound
  | ErrReadOnlyTxn
  | ErrDiscardedTxn
  | ErrEmptyKey
  | CodecError string
  | EngineError string

text \<open>A panic carries its message; \<open>Inl\<close> of a result is the panic.\<close>

type_synonym panic = string

section \<open>Key encoding (encode.go, store.go)\<close>

text \<open>
  \<^verbatim>\<open>EncodeFunc func(value interface{}) ([]byte, error)\<close> and
  \<^verbatim>\<open>DecodeFunc func(data []byte, value interface{}) error\<close>. The decoder writes
  through the pointer it is given: the model passes the old content of the target and
  gets its new content back, together with the error (\<open>None\<close> is \<^verbatim>\<open>nil\<close>).
\<close>

type_synonym 'v EncodeFunc = "'v \<Rightarrow> error + bytes"
type_synonym 'v DecodeFunc = "bytes \<Rightarrow> 'v \<Rightarrow> error option \<times> 'v"

text \<open>\<^verbatim>\<open>func typePrefix(typeName string) []byte { return []byte("bh_" + typeName) }\<close>\<close>

definition typePrefix :: "string \<Rightarrow> bytes" where
  "typePrefix typeName = bytesOf (''bh_'' @ typeName)"

text \<open>
  \<^verbatim>\<open>encodeKey\<close>: encode the key with the store's encoder; an encoder error is returned
  as it is, otherwise the encoded key is appended to the type prefix.
\<close>

definition encodeKey :: "'v EncodeFunc \<Rightarrow> 'v \<Rightarrow> string \<Rightarrow> error + bytes" where
  "encodeKey enc key typeName =
     (case enc key of
        Inl err \<Rightarrow> Inl err
      | Inr encoded \<Rightarrow> Inr (typePrefix typeName @ encoded))"

text \<open>
  \<^verbatim>\<open>decodeKey\<close>: \<^verbatim>\<open>s.decode(data[len(typePrefix(typeName)):], key)\<close>. The slice
  expression panics when \<open>data\<close> is shorter than the prefix.
\<close>

definition decodeKey ::
  "'v DecodeFunc \<Rightarrow> bytes \<Rightarrow> 'v \<Rightarrow> string \<Rightarrow> panic + (error option \<times> 'v)" where
  "decodeKey dec data key typeName =
     (if length data < length (typePrefix typeName)
      then Inl ''slice bounds out of range''
      else Inr (dec (drop (length (typePrefix typeName)) data) key))"

text \<open>
  A codec for string values, used to run the theorems on concrete inputs: a string is
  encoded as its bytes and decoded from them.
\<close>

definition rawEncode :: "string EncodeFunc" where
  "rawEncode s = Inr (bytesOf s)"

definition rawDecode :: "string DecodeFunc" where
  "rawDecode b old = (None, stringOf b)"

section \<open>Values and reflection\<close>

text \<open>
  The Go values the store handles (\<^verbatim>\<open>interface{}\<close>), as far as the index extractor
  looks into them: pointers, which it follows, and structs, whose fields it reads by
  name. A struct value lists its direct fields: name, whether the field is exported, and
  value.
\<close>

datatype val =
    VNil
  | VBool bool
  | VInt int
  | VString string
  | VBytes bytes
  | VNilPtr
  | VPtr val
  | VStruct string "(string \<times> bool \<times> val) list"

text \<open>\<^verbatim>\<open>reflect.StructField\<close>: the name of a field and its tag string.\<close>

record StructField =
  Name :: string
  Tag :: string

text \<open>
  \<^verbatim>\<open>reflect.Type\<close>: a pointer type (its name, empty when the pointer type is unnamed,
  and its element type), a struct type (its name, empty for an anonymous struct, and
  its fields), or a type of any other kind (its name).
\<close>

datatype rtype =
    Ptr string rtype
  | Struct string "StructField list"
  | Other string

datatype rkind = KPtr | KStruct | KOther

fun Kind :: "rtype \<Rightarrow> rkind" where
  "Kind (Ptr n t) = KPtr"
| "Kind (Struct n fs) = KStruct"
| "Kind (Other n) = KOther"

fun rName :: "rtype \<Rightarrow> string" where
  "rName (Ptr n t) = n"
| "rName (Struct n fs) = n"
| "rName (Other n) = n"

fun Fields :: "rtype \<Rightarrow> StructField list" where
  "Fields (Struct n fs) = fs"
| "Fields t = []"

text \<open>\<^verbatim>\<open>strings.HasPrefix\<close> and \<^verbatim>\<open>strings.Contains\<close>.\<close>

fun HasPrefix :: "string \<Rightarrow> string \<Rightarrow> bool" where
  "HasPrefix s [] = True"
| "HasPrefix [] (p # ps) = False"
| "HasPrefix (c # cs) (p # ps) = (c = p \<and> HasPrefix cs ps)"

fun Contains :: "string \<Rightarrow> string \<Rightarrow> bool" where
  "Contains [] substr = (substr = [])"
| "Contains (c # cs) substr = (HasPrefix (c # cs) substr \<or> Contains cs substr)"

subsection \<open>The standard library's struct tag parser\<close>

text \<open>
  \<^verbatim>\<open>reflect.StructTag.Get\<close> is a parameter of \<open>newStorer\<close> below, so that what is
  proved of \<open>newStorer\<close> holds whatever the library returns. To run \<open>newStorer\<close> on
  concrete struct types, \<open>Get\<close> follows the library's \<^verbatim>\<open>Lookup\<close> loop: skip spaces,
  scan a name up to \<^verbatim>\<open>:"\<close>, scan the quoted value up to its closing quote, and
  return the value of the first pair whose name is the key. A malformed tag ends the
  search with the empty string. Escape sequences are not interpreted: a value with a
  backslash or a newline is taken as malformed.
\<close>

fun scanQuoted :: "string \<Rightarrow> (string \<times> string) option" where
  "scanQuoted [] = None"
| "scanQuoted [c] = (if c = CHR 0x22 then Some ([], []) else None)"
| "scanQuoted (c # d # cs) =
     (if c = CHR 0x22 then Some ([], d # cs)
      else if c = CHR 0x5C then map_option (\<lambda>(v, r). (c # d # v, r)) (scanQuoted cs)
      else map_option (\<lambda>(v, r). (c # v, r)) (scanQuoted (d # cs)))"

definition nameChar :: "char \<Rightarrow> bool" where
  "nameChar c =
     ((of_char c :: nat) > 32 \<and> c \<noteq> CHR '':'' \<and> c \<noteq> CHR 0x22 \<and> c \<noteq> CHR 0x7F)"

definition unquoteContent :: "string \<Rightarrow> string option" where
  "unquoteContent content =
     (if CHR 0x5C \<in> set content \<or> CHR 0x0A \<in> set content then None else Some content)"

function Lookup :: "string \<Rightarrow> string \<Rightarrow> string option" where
  "Lookup tag key =
     (let tag1 = dropWhile (\<lambda>c. c = CHR '' '') tag in
      if tag1 = [] then None
      else
        let name = takeWhile nameChar tag1; rest = dropWhile nameChar tag1 in
        if name = [] then None
        else
          (case rest of
             c1 # c2 # rest2 \<Rightarrow>
               if c1 = CHR '':'' \<and> c2 = CHR 0x22 then
                 (case scanQuoted rest2 of
                    None \<Rightarrow> None
                  | Some (qvalue, tag') \<Rightarrow>
                      if key = name then unquoteContent qvalue else Lookup tag' key)
               else None
           | _ \<Rightarrow> None))"
  by pat_completeness auto
termination
proof (relation "measure (\<lambda>(tag, key). length tag)")
  show "wf (measure (\<lambda>(tag, key). length tag))" by simp
next
  fix tag key :: string and tag1 name rest c1 restA c2 rest2 x2 qvalue tag'
  assume a: "tag1 = dropWhile (\<lambda>c. c = CHR '' '') tag"
    "rest = dropWhile nameChar tag1" "rest = c1 # restA" "restA = c2 # rest2"
    "scanQuoted rest2 = Some x2" "(qvalue, tag') = x2"
  have sq: "scanQuoted s = Some (v, r) \<Longrightarrow> length r \<le> length s" for s v r
  proof (induction s arbitrary: v r rule: scanQuoted.induct)
    case 1
    then show ?case by simp
  next
    case (2 c)
    then show ?case by (simp split: if_splits)
  next
    case (3 c d cs)
    then show ?case by (fastforce split: if_splits)
  qed
  from a have "length tag' \<le> length rest2" using sq [of rest2 qvalue tag'] by simp
  also have "\<dots> < length rest" unfolding a(3,4) by simp
  also have "\<dots> \<le> length tag1" using a by (simp add: length_dropWhile_le)
  also have "\<dots> \<le> length tag" using a by (simp add: length_dropWhile_le)
  finally show "((tag', key), (tag, key)) \<in> measure (\<lambda>(tag, key). length tag)" by simp
qed

declare Lookup.simps [simp del]

definition Get :: "string \<Rightarrow> string \<Rightarrow> string" where
  "Get tag key = (case Lookup tag key of None \<Rightarrow> [] | Some v \<Rightarrow> v)"

section \<open>The type catalog (store.go)\<close>

definition HoldIndexTag :: string where "HoldIndexTag = ''holdIndex''"
definition HoldKeyTag :: string where "HoldKeyTag = ''holdKey''"
definition holdPrefixTag :: string where "holdPrefixTag = ''hold''"
definition holdPrefixIndexValue :: string where "holdPrefixIndexValue = ''index''"
definition holdPrefixKeyValue :: string where "holdPrefixKeyValue = ''key''"
definition holdPrefixUniqueValue :: string where "holdPrefixUniqueValue = ''unique''"

text \<open>
  \<^verbatim>\<open>var encode EncodeFunc\<close> and \<^verbatim>\<open>var decode DecodeFunc\<close>: the package-level
  variables that \<open>Open\<close> assigns and the index extractors read.
\<close>

record globals =
  encode :: "val EncodeFunc"
  decode :: "val DecodeFunc"

text \<open>
  \<^verbatim>\<open>Index{IndexFunc: ..., Unique: ...}\<close>. An index function is Go code that may read
  the package's variables when it is called, so it takes them as an argument; it may
  panic.
\<close>

record Index =
  IndexFunc :: "globals \<Rightarrow> string \<Rightarrow> val \<Rightarrow> panic + (error + bytes)"
  Unique :: bool

text \<open>
  A Go \<^verbatim>\<open>map[string]Index\<close> is an association list with at most one entry for a
  key: \<^verbatim>\<open>m[k] = v\<close> is \<^const>\<open>AList.update\<close>, lookup is \<^const>\<open>map_of\<close>.
\<close>

type_synonym indexes = "(string \<times> Index) list"

text \<open>
  The \<^verbatim>\<open>Storer\<close> interface has two implementations: a type of the user's (what its
  methods \<^verbatim>\<open>Type()\<close> and \<^verbatim>\<open>Indexes()\<close> return), and \<^verbatim>\<open>anonStorer\<close> with its
  fields \<^verbatim>\<open>rType\<close> and \<^verbatim>\<open>indexes\<close>.
\<close>

datatype Storer =
    UserStorer string indexes
  | anonStorer rtype indexes

fun Type :: "Storer \<Rightarrow> string" where
  "Type (UserStorer n idx) = n"
| "Type (anonStorer rType idx) = rName rType"

fun Indexes :: "Storer \<Rightarrow> indexes" where
  "Indexes (UserStorer n idx) = idx"
| "Indexes (anonStorer rType idx) = idx"

text \<open>
  What \<open>newStorer\<close> observes of its argument \<^verbatim>\<open>dataType interface{}\<close>: a value whose
  type implements \<^verbatim>\<open>Storer\<close> (the type assertion succeeds), any other value, through
  its \<^verbatim>\<open>reflect.TypeOf\<close>, or the nil interface, whose \<^verbatim>\<open>reflect.TypeOf\<close> is nil.
\<close>

datatype dataType =
    StorerValue Storer
  | Reflected rtype
  | NilInterface

text \<open>\<^verbatim>\<open>for tp.Kind() == reflect.Ptr { tp = tp.Elem() }\<close>\<close>

fun derefType :: "rtype \<Rightarrow> rtype" where
  "derefType (Ptr n t) = derefType t"
| "derefType t = t"

text \<open>
  The closure stored as \<^verbatim>\<open>IndexFunc\<close>: follow the pointers of the value, take the
  field of that name and encode it with the package-level \<^verbatim>\<open>encode\<close>.
  \<^verbatim>\<open>FieldByName\<close> panics on a value that is no struct (also on the invalid value that
  a nil pointer or a nil interface gives), and \<^verbatim>\<open>Interface\<close> panics on a missing or
  unexported field. Only direct fields are looked up (no promotion through embedded
  structs).
\<close>

fun fieldInterface :: "string \<Rightarrow> val \<Rightarrow> panic + val" where
  "fieldInterface name (VPtr v) = fieldInterface name v"
| "fieldInterface name (VStruct T fs) =
     (case map_of fs name of
        None \<Rightarrow> Inl ''reflect: call of reflect.Value.Interface on zero Value''
      | Some (exported, x) \<Rightarrow>
          if exported then Inr x
          else Inl ''reflect.Value.Interface: cannot return value obtained from unexported field or method'')"
| "fieldInterface name VNil = Inl ''reflect: call of reflect.Value.FieldByName on zero Value''"
| "fieldInterface name VNilPtr = Inl ''reflect: call of reflect.Value.FieldByName on zero Value''"
| "fieldInterface name v = Inl ''reflect: call of reflect.Value.FieldByName on non-struct Value''"

definition anonIndexFunc :: "globals \<Rightarrow> string \<Rightarrow> val \<Rightarrow> panic + (error + bytes)" where
  "anonIndexFunc g name value =
     (case fieldInterface name value of
        Inl p \<Rightarrow> Inl p
      | Inr x \<Rightarrow> Inr (encode g x))"

text \<open>
  The body of the loop over the fields, up to the registration: the index name the
  field gets (empty for none) and whether the index is unique. \<open>tagGet\<close> is
  \<^verbatim>\<open>reflect.StructTag.Get\<close>.
\<close>

definition fieldIndex :: "(string \<Rightarrow> string \<Rightarrow> string) \<Rightarrow> StructField \<Rightarrow> string \<times> bool" where
  "fieldIndex tagGet f =
     (if Contains (Tag f) HoldIndexTag then
        (let indexName = tagGet (Tag f) HoldIndexTag in
         (if indexName \<noteq> [] then Name f else indexName, False))
      else
        (let tag = tagGet (Tag f) holdPrefixTag in
         if tag \<noteq> [] then
           (if tag = holdPrefixIndexValue then (Name f, False)
            else if tag = holdPrefixUniqueValue then (Name f, True)
            else ([], False))
         else ([], False)))"

text \<open>\<^verbatim>\<open>for i := 0; i < storer.rType.NumField(); i++ { ... }\<close>, on the fields left.\<close>

fun registerFields ::
  "(string \<Rightarrow> string \<Rightarrow> string) \<Rightarrow> StructField list \<Rightarrow> indexes \<Rightarrow> indexes" where
  "registerFields tagGet [] idx = idx"
| "registerFields tagGet (f # fs) idx =
     (case fieldIndex tagGet f of
        (indexName, unique) \<Rightarrow>
          registerFields tagGet fs
            (if indexName \<noteq> []
             then AList.update indexName \<lparr>IndexFunc = anonIndexFunc, Unique = unique\<rparr> idx
             else idx))"

text \<open>
  \<open>newStorer\<close>: a value that implements \<^verbatim>\<open>Storer\<close> is returned as it is. Otherwise
  the pointers of its type are followed (the nil interface has no type: the method call
  on the nil \<^verbatim>\<open>reflect.Type\<close> panics); an unnamed type and a type that is no struct
  panic; a named struct type gets a descriptor with the indexes of its fields.
\<close>

fun newStorer :: "(string \<Rightarrow> string \<Rightarrow> string) \<Rightarrow> dataType \<Rightarrow> panic + Storer" where
  "newStorer tagGet (StorerValue s) = Inr s"
| "newStorer tagGet NilInterface =
     Inl ''runtime error: invalid memory address or nil pointer dereference''"
| "newStorer tagGet (Reflected tp0) =
     (let tp = derefType tp0 in
      if rName tp = [] then Inl ''Invalid Type for Storer.  Type is unnamed''
      else if Kind tp \<noteq> KStruct then Inl ''Invalid Type for Storer.  Hold only works with structs''
      else Inr (anonStorer tp (registerFields tagGet (Fields tp) [])))"

section \<open>The engine, as the store uses it\<close>

text \<open>
  The key-value engine is an external collaborator. Its state holds the committed data
  and the history of the calls the store made on it, each with the engine's answer: an
  error, or the value the call returned (of no meaning for a call that returns only an
  error). The engine's answer to a call depends on the history so far and is given by
  the field \<open>answers\<close>, so that what is proved of the callers below holds for every
  such engine. Reads and writes inside a transaction are not calls of the history; the
  commit of a transaction is.
\<close>

datatype call =
    GetSequenceCall bytes "64 word"
  | NextCall nat
  | ReleaseCall nat
  | RunValueLogGCCall rat
  | CommitCall
  | CloseCall

type_synonym history = "(call \<times> (error + 64 word)) list"

record DB =
  kv :: "bytes \<rightharpoonup> bytes"
  calls :: history
  answers :: "history \<Rightarrow> call \<Rightarrow> error + 64 word"

definition engineCall :: "DB \<Rightarrow> call \<Rightarrow> (error + 64 word) \<times> DB" where
  "engineCall d c = (let r = answers d (calls d) c in (r, d\<lparr>calls := calls d @ [(c, r)]\<rparr>))"

text \<open>
  A \<^verbatim>\<open>*badger.Sequence\<close> is identified by the position in the history of the call
  that created it.
\<close>

type_synonym Sequence = nat

definition GetSequence :: "DB \<Rightarrow> bytes \<Rightarrow> 64 word \<Rightarrow> (error + Sequence) \<times> DB" where
  "GetSequence d key bandwidth =
     (case engineCall d (GetSequenceCall key bandwidth) of
        (Inl err, d') \<Rightarrow> (Inl err, d')
      | (Inr x, d') \<Rightarrow> (Inr (length (calls d)), d'))"

definition Next :: "DB \<Rightarrow> Sequence \<Rightarrow> (error + 64 word) \<times> DB" where
  "Next d seq = engineCall d (NextCall seq)"

definition Release :: "DB \<Rightarrow> Sequence \<Rightarrow> error option \<times> DB" where
  "Release d seq =
     (case engineCall d (ReleaseCall seq) of
        (Inl err, d') \<Rightarrow> (Some err, d')
      | (Inr x, d') \<Rightarrow> (None, d'))"


definition CloseDB :: "DB \<Rightarrow> error option \<times> DB" where
  "CloseDB d =
     (case engineCall d CloseCall of
        (Inl err, d') \<Rightarrow> (Some err, d')
      | (Inr x, d') \<Rightarrow> (None, d'))"

section \<open>The store and its lifecycle (store.go)\<close>

text \<open>
  \<^verbatim>\<open>type Store struct { db *badger.DB; sequenceBandwith uint64; sequences *sync.Map }\<close>.
  The sequence map is an association list from type names to sequence handles;
  \<^verbatim>\<open>Range\<close> visits it in the order of the list.
\<close>

record Store =
  db :: DB
  sequenceBandwith :: "64 word"
  sequences :: "(string \<times> Sequence) list"

text \<open>
  \<^verbatim>\<open>type Options struct { Encoder; Decoder; SequenceBandwith; badger.Options }\<close>; the
  embedded options of the engine are of a type \<open>'o\<close> that only \<^verbatim>\<open>badger.Open\<close> reads.
\<close>

record 'o Options =
  Encoder :: "val EncodeFunc"
  Decoder :: "val DecodeFunc"
  SequenceBandwith :: "64 word"
  badgerOptions :: 'o

text \<open>
  \<open>Open\<close> assigns the package-level \<^verbatim>\<open>encode\<close> and \<^verbatim>\<open>decode\<close> first, then opens the
  engine (\<open>badgerOpen\<close> is \<^verbatim>\<open>badger.Open\<close>) and returns its error or the new store.
  The goroutine it starts is \<open>runStorageGC\<close> below.
\<close>

definition Open ::
  "('o \<Rightarrow> error + DB) \<Rightarrow> 'o Options \<Rightarrow> globals \<Rightarrow> (error + Store) \<times> globals" where
  "Open badgerOpen options g =
     (let g' = g\<lparr>encode := Encoder options, decode := Decoder options\<rparr> in
      case badgerOpen (badgerOptions options) of
        Inl err \<Rightarrow> (Inl err, g')
      | Inr d \<Rightarrow>
          (Inr \<lparr>db = d, sequenceBandwith = SequenceBandwith options, sequences = []\<rparr>, g'))"

text \<open>
  \<open>callsSince d d'\<close>: the calls in the history of \<open>d'\<close> that come after those of \<open>d\<close>.
\<close>

definition callsSince :: "DB \<Rightarrow> DB \<Rightarrow> history" where
  "callsSince d d' = drop (length (calls d)) (calls d')"

subsection \<open>Sequences\<close>

text \<open>
  \<open>getSequence\<close>: load the handle of the type from the sequence map; when there is
  none, ask the engine for a new one (its error is returned), store it in the map and
  use it. The result is the handle's \<^verbatim>\<open>Next()\<close>.
\<close>

definition getSequence :: "Store \<Rightarrow> string \<Rightarrow> (error + 64 word) \<times> Store" where
  "getSequence s typeName =
     (case map_of (sequences s) typeName of
        None \<Rightarrow>
          (case GetSequence (db s) (bytesOf typeName) (sequenceBandwith s) of
             (Inl err, d') \<Rightarrow> (Inl err, s\<lparr>db := d'\<rparr>)
           | (Inr newSeq, d') \<Rightarrow>
               (case Next d' newSeq of
                  (r, d'') \<Rightarrow>
                    (r, s\<lparr>db := d'', sequences := AList.update typeName newSeq (sequences s)\<rparr>)))
      | Some seq \<Rightarrow> (case Next (db s) seq of (r, d') \<Rightarrow> (r, s\<lparr>db := d'\<rparr>)))"

text \<open>
  \<open>Close\<close>: \<^verbatim>\<open>Range\<close> releases the handles one by one and stops at the first error,
  which \<open>Close\<close> returns; otherwise the engine is closed.
\<close>

fun releaseAll :: "(string \<times> Sequence) list \<Rightarrow> DB \<Rightarrow> error option \<times> DB" where
  "releaseAll [] d = (None, d)"
| "releaseAll ((key, seq) # rest) d =
     (case Release d seq of
        (Some err, d') \<Rightarrow> (Some err, d')
      | (None, d') \<Rightarrow> releaseAll rest d')"

definition Close :: "Store \<Rightarrow> error option \<times> Store" where
  "Close s =
     (case releaseAll (sequences s) (db s) of
        (Some err, d') \<Rightarrow> (Some err, s\<lparr>db := d'\<rparr>)
      | (None, d') \<Rightarrow> (case CloseDB d' of (r, d'') \<Rightarrow> (r, s\<lparr>db := d''\<rparr>)))"

text \<open>
  \<open>releasesSucceed ans h seqs\<close>: an engine with the answers \<open>ans\<close> and the history \<open>h\<close>
  answers the release of each of the handles \<open>seqs\<close>, asked in this order, without an
  error.
\<close>

fun releasesSucceed :: "(history \<Rightarrow> call \<Rightarrow> error + 64 word) \<Rightarrow> history \<Rightarrow> Sequence list \<Rightarrow> bool" where
  "releasesSucceed ans h [] = True"
| "releasesSucceed ans h (seq # rest) =
     (case ans h (ReleaseCall seq) of
        Inl err \<Rightarrow> False
      | Inr x \<Rightarrow> releasesSucceed ans (h @ [(ReleaseCall seq, Inr x)]) rest)"

subsection \<open>The background value-log GC\<close>




section \<open>Transactions and deletion (delete.go)\<close>

text \<open>
  A transaction of the engine: its view of the data (the committed data with its own
  writes), whether it may write, and whether it has been discarded. \<open>txGet\<close> and
  \<open>txDelete\<close> are \<^verbatim>\<open>tx.Get\<close> (returning the value of the item) and \<^verbatim>\<open>tx.Delete\<close>;
  the size limits of the engine are left out.
\<close>

record Txn =
  pending :: "bytes \<rightharpoonup> bytes"
  update :: bool
  discarded :: bool

definition txGet :: "Txn \<Rightarrow> bytes \<Rightarrow> error + bytes" where
  "txGet tx key =
     (if key = [] then Inl ErrEmptyKey
      else if discarded tx then Inl ErrDiscardedTxn
      else case pending tx key of None \<Rightarrow> Inl ErrKeyNotFound | Some v \<Rightarrow> Inr v)"

definition txDelete :: "Txn \<Rightarrow> bytes \<Rightarrow> error option \<times> Txn" where
  "txDelete tx key =
     (if \<not> update tx then (Some ErrReadOnlyTxn, tx)
      else if discarded tx then (Some ErrDiscardedTxn, tx)
      else if key = [] then (Some ErrEmptyKey, tx)
      else (None, tx\<lparr>pending := (pending tx)(key := None)\<rparr>))"

text \<open>
  \<^verbatim>\<open>db.Update(fn)\<close>: run \<open>fn\<close> on a new read-write transaction over the committed
  data; an error of \<open>fn\<close> discards the transaction, otherwise it is committed, which
  the engine may refuse. A panic of \<open>fn\<close> leaves the committed data as they were.
\<close>

definition Update ::
  "DB \<Rightarrow> (Txn \<Rightarrow> panic + (error option \<times> Txn)) \<Rightarrow> panic + (error option \<times> DB)" where
  "Update d fn =
     (case fn \<lparr>pending = kv d, update = True, discarded = False\<rparr> of
        Inl p \<Rightarrow> Inl p
      | Inr (Some err, tx) \<Rightarrow> Inr (Some err, d)
      | Inr (None, tx) \<Rightarrow>
          (case engineCall d CommitCall of
             (Inl err, d') \<Rightarrow> Inr (Some err, d')
           | (Inr x, d') \<Rightarrow> Inr (None, d'\<lparr>kv := pending tx\<rparr>)))"

text \<open>
  \<open>TxDelete\<close>. The helper \<^verbatim>\<open>indexDelete\<close> is not among the sources: it is the
  parameter \<open>indexDelete\<close>. The descriptor is that of \<open>newStorer\<close> above. \<open>enc\<close> and \<open>dec\<close> are the store's \<^verbatim>\<open>s.encode\<close> and
  \<^verbatim>\<open>s.decode\<close>, \<open>fresh\<close> is the new value that
  \<^verbatim>\<open>reflect.New(reflect.TypeOf(dataType)).Interface()\<close> allocates. The result of
  \<^verbatim>\<open>item.Value\<close>, which is the decoder's error, is not assigned: the test of \<open>err\<close>
  that follows sees the \<^verbatim>\<open>nil\<close> of \<^verbatim>\<open>tx.Get\<close>.
\<close>

definition TxDelete ::
  "(Storer \<Rightarrow> Txn \<Rightarrow> bytes \<Rightarrow> val \<Rightarrow> panic + (error option \<times> Txn)) \<Rightarrow>
   (string \<Rightarrow> string \<Rightarrow> string) \<Rightarrow> val EncodeFunc \<Rightarrow> val DecodeFunc \<Rightarrow>
   Txn \<Rightarrow> val \<Rightarrow> dataType \<Rightarrow> val \<Rightarrow> panic + (error option \<times> Txn)" where
  "TxDelete indexDelete tagGet enc dec tx key dataType fresh =
     (case newStorer tagGet dataType of
        Inl p \<Rightarrow> Inl p
      | Inr storer \<Rightarrow>
          (case encodeKey enc key (Type storer) of
             Inl err \<Rightarrow> Inr (Some err, tx)
           | Inr gk \<Rightarrow>
               (case txGet tx gk of
                  Inl err \<Rightarrow>
                    if err = ErrKeyNotFound then Inr (Some ErrNotFound, tx)
                    else Inr (Some err, tx)
                | Inr bVal \<Rightarrow>
                    (let value = snd (dec bVal fresh) in
                     case txDelete tx gk of
                       (Some err, tx') \<Rightarrow> Inr (Some err, tx')
                     | (None, tx') \<Rightarrow> indexDelete storer tx' gk value))))"

text \<open>\<open>Delete\<close>: \<open>TxDelete\<close> inside \<^verbatim>\<open>s.Badger().Update\<close>.\<close>

definition Delete ::
  "(Storer \<Rightarrow> Txn \<Rightarrow> bytes \<Rightarrow> val \<Rightarrow> panic + (error option \<times> Txn)) \<Rightarrow>
   (string \<Rightarrow> string \<Rightarrow> string) \<Rightarrow> val EncodeFunc \<Rightarrow> val DecodeFunc \<Rightarrow>
   Store \<Rightarrow> val \<Rightarrow> dataType \<Rightarrow> val \<Rightarrow> panic + (error option \<times> Store)" where
  "Delete indexDelete tagGet enc dec s key dataType fresh =
     (case Update (db s) (\<lambda>tx. TxDelete indexDelete tagGet enc dec tx key dataType fresh) of
        Inl p \<Rightarrow> Inl p
      | Inr (err, d') \<Rightarrow> Inr (err, s\<lparr>db := d'\<rparr>))"

text \<open>
  Modelled from the spec: \<^verbatim>\<open>indexDelete\<close>, whose source file is missing. The spec
  has \<open>on_delete(tx, T, k, r)\<close> remove every index entry and unique-key entry
  associated with \<open>r\<close>, the entry of a unique index under
  \<open>"_unique:" || T || ":" || idx_name || ":" || encode(field_value)\<close> and that of any
  other index under
  \<open>"_index:" || T || ":" || idx_name || ":" || encode(field_value) || record_key\<close>.
  It is used below to run \<open>TxDelete\<close> on concrete data only.
\<close>

definition indexKey :: "string \<Rightarrow> string \<Rightarrow> bool \<Rightarrow> bytes \<Rightarrow> bytes \<Rightarrow> bytes" where
  "indexKey T name unique encoded key =
     (if unique then bytesOf (''_unique:'' @ T @ '':'' @ name @ '':'') @ encoded
      else bytesOf (''_index:'' @ T @ '':'' @ name @ '':'') @ encoded @ key)"

fun indexDeleteAll ::
  "globals \<Rightarrow> string \<Rightarrow> indexes \<Rightarrow> Txn \<Rightarrow> bytes \<Rightarrow> val \<Rightarrow> panic + (error option \<times> Txn)" where
  "indexDeleteAll g T [] tx key value = Inr (None, tx)"
| "indexDeleteAll g T ((name, index) # rest) tx key value =
     (case IndexFunc index g name value of
        Inl p \<Rightarrow> Inl p
      | Inr (Inl err) \<Rightarrow> Inr (Some err, tx)
      | Inr (Inr encoded) \<Rightarrow>
          (case txDelete tx (indexKey T name (Unique index) encoded key) of
             (Some err, tx') \<Rightarrow> Inr (Some err, tx')
           | (None, tx') \<Rightarrow> indexDeleteAll g T rest tx' key value))"

definition indexDelete ::
  "globals \<Rightarrow> Storer \<Rightarrow> Txn \<Rightarrow> bytes \<Rightarrow> val \<Rightarrow> panic + (error option \<times> Txn)" where
  "indexDelete g storer tx key value =
     indexDeleteAll g (Type storer) (Indexes storer) tx key value"

section \<open>Sample data\<close>

text \<open>
  Concrete inputs on which the theorems below are run.
  \<^item> \<open>userFields\<close>, \<open>userType\<close>, \<open>zeroUser\<close>: a struct type \<open>User\<close> with the three tags
    of the alternate form, and its zero value.
  \<^item> \<open>textEncode\<close>, \<open>textDecode\<close>: a codec that stores a string as its bytes;
    \<open>quotedEncode\<close>, \<open>quotedDecode\<close>: one that puts them between double quotes;
    \<open>nameDecode\<close>: a decoder that fills the field \<open>Name\<close> of its target;
    \<open>textGlobals\<close>: the package variables when they hold the first codec.
  \<^item> \<open>quietDB\<close>: an engine without data that never fails; \<open>gcDB\<close>: one whose
    value-log GC succeeds twice and then reports that nothing is left to do, and
    \<open>gcDB'\<close>: that engine after one GC cycle.
  \<^item> \<open>userTxn\<close>: a read-write transaction that sees one record of \<open>User\<close> under the
    key \<open>k1\<close>; \<open>emptyTxn\<close>: a read-only transaction that sees nothing.
  \<^item> \<open>userStore\<close>: a store that has just been opened; \<open>userStore1\<close>: that store
    after its first sequence request for \<open>User\<close>; \<open>annStore\<close>: a store whose
    committed data are the record under \<open>k1\<close>; \<open>stuckStore\<close>: a store with three
    sequence handles on an engine that refuses to release the second.
\<close>

definition userFields :: "StructField list" where
  "userFields =
     [\<lparr>Name = ''Key'', Tag = ''hold:\"key\"''\<rparr>,
      \<lparr>Name = ''Name'', Tag = ''hold:\"index\"''\<rparr>,
      \<lparr>Name = ''Email'', Tag = ''hold:\"unique\"''\<rparr>,
      \<lparr>Name = ''Age'', Tag = []\<rparr>]"

definition textEncode :: "val EncodeFunc" where
  "textEncode v = (case v of VString s \<Rightarrow> Inr (bytesOf s) | _ \<Rightarrow> Inl (CodecError ''text: not a string''))"

definition textDecode :: "val DecodeFunc" where
  "textDecode b old = (None, VString (stringOf b))"

definition quotedEncode :: "val EncodeFunc" where
  "quotedEncode v =
     (case v of
        VString s \<Rightarrow> Inr (bytesOf ([CHR 0x22] @ s @ [CHR 0x22]))
      | _ \<Rightarrow> Inl (CodecError ''quoted: not a string''))"

definition quotedDecode :: "val DecodeFunc" where
  "quotedDecode b old =
     (if 2 \<le> length b \<and> hd b = 0x22 \<and> last b = 0x22
      then (None, VString (stringOf (butlast (tl b))))
      else (Some (CodecError ''quoted: syntax''), old))"

definition quietDB :: DB where
  "quietDB = \<lparr>kv = Map.empty, calls = [], answers = (\<lambda>h c. Inr 0)\<rparr>"

definition textGlobals :: globals where
  "textGlobals = \<lparr>encode = textEncode, decode = textDecode\<rparr>"

definition userType :: rtype where
  "userType = Struct ''User'' userFields"

definition zeroUser :: val where
  "zeroUser = VStruct ''User''
     [(''Key'', True, VInt 0), (''Name'', True, VString []),
      (''Email'', True, VString []), (''Age'', True, VInt 0)]"

definition nameDecode :: "val DecodeFunc" where
  "nameDecode b old =
     (case old of
        VStruct T fs \<Rightarrow> (None, VStruct T (AList.update ''Name'' (True, VString (stringOf b)) fs))
      | _ \<Rightarrow> (Some (CodecError ''name: target is no struct''), old))"

definition userTxn :: Txn where
  "userTxn = \<lparr>pending = [bytesOf ''bh_Userk1'' \<mapsto> bytesOf ''ann''], update = True, discarded = False\<rparr>"

definition userStore :: Store where
  "userStore = \<lparr>db = quietDB, sequenceBandwith = 100, sequences = []\<rparr>"

definition emptyTxn :: Txn where
  "emptyTxn = \<lparr>pending = Map.empty, update = False, discarded = False\<rparr>"

definition annStore :: Store where
  "annStore =
     \<lparr>db = quietDB\<lparr>kv := [bytesOf ''bh_Userk1'' \<mapsto> bytesOf ''ann'']\<rparr>,
      sequenceBandwith = 100, sequences = []\<rparr>"

definition userStore1 :: Store where
  "userStore1 =
     \<lparr>db = quietDB\<lparr>calls := [(GetSequenceCall (bytesOf ''User'') 100, Inr 0), (NextCall 0, Inr 0)]\<rparr>,
      sequenceBandwith = 100, sequences = [(''User'', 0)]\<rparr>"

definition stuckStore :: Store where
  "stuckStore =
     \<lparr>db = \<lparr>kv = Map.empty, calls = [],
             answers = (\<lambda>h c. if c = ReleaseCall 1 then Inl (EngineError ''release'') else Inr 0)\<rparr>,
      sequenceBandwith = 100,
      sequences = [(''User'', 0), (''Item'', 1), (''Order'', 2)]\<rparr>"



section \<open>Properties of the key encoding\<close>

lemma length_bytesOf [simp]: "length (bytesOf s) = length s"
  by (simp add: bytesOf_def)

lemma bytesOf_append [simp]: "bytesOf (s @ t) = bytesOf s @ bytesOf t"
  by (simp add: bytesOf_def)

lemma typePrefix_split: "typePrefix T = bytesOf ''bh_'' @ bytesOf T"
  unfolding typePrefix_def by (rule bytesOf_append)

lemma stringOf_bytesOf [simp]: "stringOf (bytesOf s) = s"
proof -
  have "char_of (unat (of_nat (of_char c) :: byte)) = c" for c :: char
  proof -
    have "(of_char c :: nat) < 256" by (rule nat_of_char_less_256)
    then have "unat (of_nat (of_char c) :: byte) = of_char c"
      by (simp add: unat_of_nat)
    then show ?thesis by simp
  qed
  then show ?thesis
    by (simp add: stringOf_def bytesOf_def comp_def map_idI)
qed

text \<open>
  Claim C2. For every type name \<open>T\<close> and key \<open>k\<close>, the record key the store produces is
  the bytes of \<open>bh_\<close>, then the bytes of \<open>T\<close>, then the encoded key; when the encoder
  fails its error is returned and no key is produced.
\<close>

theorem encodeKey_layout:
  "encodeKey enc k T =
     map_sum id (\<lambda>encoded. bytesOf ''bh_'' @ bytesOf T @ encoded) (enc k)"
  by (cases "enc k") (simp_all add: encodeKey_def typePrefix_split)

text \<open>
  Claim C5. If the bound codec is self-inverse (decoding what the encoder produced for
  a value gives that value back, without error), then \<open>decodeKey\<close> applied to the key
  that \<open>encodeKey\<close> produced for \<open>k\<close> and \<open>T\<close> recovers \<open>k\<close>: it removes exactly the
  prefix of \<open>T\<close> and decodes the rest, which is the encoding of \<open>k\<close>.
\<close>

theorem decodeKey_encodeKey:
  assumes roundtrip: "\<And>v encoded old. enc v = Inr encoded \<Longrightarrow> dec encoded old = (None, v)"
    and key: "encodeKey enc k T = Inr gk"
  shows "decodeKey dec gk old T = Inr (None, k)
       \<and> enc k = Inr (drop (length (typePrefix T)) gk)
       \<and> take (length (typePrefix T)) gk = bytesOf ''bh_'' @ bytesOf T"
proof -
  from key obtain encoded where e: "enc k = Inr encoded" and gk: "gk = typePrefix T @ encoded"
    by (auto simp: encodeKey_def split: sum.splits)
  have "decodeKey dec gk old T = Inr (dec encoded old)"
    by (simp add: decodeKey_def gk)
  with roundtrip [OF e] e gk show ?thesis
    by (simp add: typePrefix_split)
qed

theorem decodeKey_encodeKey_witness:
  "decodeKey rawDecode (bytesOf ''bh_Item'' @ bytesOf ''k1'') ''old'' ''Item'' = Inr (None, ''k1'')"
proof -
  have r: "\<And>v encoded old. rawEncode v = Inr encoded \<Longrightarrow> rawDecode encoded old = (None, v)"
    by (auto simp: rawEncode_def rawDecode_def)
  have k: "encodeKey rawEncode ''k1'' ''Item'' = Inr (bytesOf ''bh_Item'' @ bytesOf ''k1'')"
    by (simp add: encodeKey_def rawEncode_def typePrefix_def)
  from decodeKey_encodeKey [of rawEncode rawDecode, OF r k] show ?thesis by simp
qed

section \<open>Properties of the type catalog\<close>

lemma derefType_foldr_Ptr: "Kind t \<noteq> KPtr \<Longrightarrow> derefType (foldr Ptr names t) = t"
  by (induction names) (cases t; simp)+

text \<open>
  Claim C6. Every value that does not implement \<open>Storer\<close> is the nil interface or has a
  type, which is some pointer wrappers around a type \<open>t\<close> that is no pointer.
  \<open>newStorer\<close> strips the wrappers: it panics when \<open>t\<close> is unnamed or is no struct (and
  on the nil interface), and for a named struct \<open>t\<close> it returns a descriptor of \<open>t\<close>.
\<close>

theorem newStorer_named_struct_or_panic:
  assumes "Kind t \<noteq> KPtr"
  shows "(rName t = [] \<or> Kind t \<noteq> KStruct \<longrightarrow>
            (\<exists>msg. newStorer tagGet (Reflected (foldr Ptr names t)) = Inl msg))
       \<and> (rName t \<noteq> [] \<and> Kind t = KStruct \<longrightarrow>
            (\<exists>idx. newStorer tagGet (Reflected (foldr Ptr names t)) = Inr (anonStorer t idx)))
       \<and> (\<exists>msg. newStorer tagGet NilInterface = Inl msg)"
  using assms by (simp add: derefType_foldr_Ptr Let_def)

theorem newStorer_named_struct_or_panic_witness:
  "(\<exists>idx. newStorer Get (Reflected (Ptr [] (Ptr [] (Struct ''Item'' [])))) =
           Inr (anonStorer (Struct ''Item'' []) idx))
   \<and> (\<exists>msg. newStorer Get (Reflected (Ptr [] (Other ''int''))) = Inl msg)
   \<and> (\<exists>msg. newStorer Get (Reflected (Struct [] [])) = Inl msg)"
  using newStorer_named_struct_or_panic [of "Struct ''Item'' []" Get "[[], []]"]
    newStorer_named_struct_or_panic [of "Other ''int''" Get "[[]]"]
    newStorer_named_struct_or_panic [of "Struct [] []" Get "[]"]
  by simp




lemma Get_unique_after_holdIndex:
  "Get ''holdIndex:\"Email\" hold:\"unique\"'' ''hold'' = ''unique''"
  by code_simp




text \<open>
  Claim C1, on the code. The field \<open>Division\<close> carries the tag
  \<^verbatim>\<open>holdIndex:"IdxDivision"\<close>: the index is registered under the name of the field,
  not under the value of the tag. With the tag \<^verbatim>\<open>holdIndex:""\<close> no index is
  registered at all.
\<close>

theorem newStorer_holdIndex_named_after_field:
  "newStorer Get (Reflected (Struct ''Person''
      [\<lparr>Name = ''Name'', Tag = []\<rparr>,
       \<lparr>Name = ''Division'', Tag = ''holdIndex:\"IdxDivision\"''\<rparr>])) =
   Inr (anonStorer (Struct ''Person''
      [\<lparr>Name = ''Name'', Tag = []\<rparr>,
       \<lparr>Name = ''Division'', Tag = ''holdIndex:\"IdxDivision\"''\<rparr>])
      [(''Division'', \<lparr>IndexFunc = anonIndexFunc, Unique = False\<rparr>)])
   \<and> newStorer Get (Reflected (Struct ''Person''
      [\<lparr>Name = ''Division'', Tag = ''holdIndex:\"\"''\<rparr>])) =
   Inr (anonStorer (Struct ''Person''
      [\<lparr>Name = ''Division'', Tag = ''holdIndex:\"\"''\<rparr>]) [])"
  by (simp add: fieldIndex_def HoldIndexTag_def holdPrefixTag_def Get_def Lookup.simps
      nameChar_def unquoteContent_def)




lemma registerFields_IndexFunc:
  assumes "\<And>k i. map_of idx k = Some i \<Longrightarrow> IndexFunc i = anonIndexFunc"
    and "map_of (registerFields tagGet fs idx) k = Some i"
  shows "IndexFunc i = anonIndexFunc"
  using assms
proof (induction fs arbitrary: idx)
  case Nil
  then show ?case by simp
next
  case (Cons f fs)
  obtain indexName unique where fi: "fieldIndex tagGet f = (indexName, unique)"
    by (cases "fieldIndex tagGet f")
  let ?idx = "if indexName \<noteq> []
      then AList.update indexName \<lparr>IndexFunc = anonIndexFunc, Unique = unique\<rparr> idx else idx"
  have inv: "\<And>k i. map_of ?idx k = Some i \<Longrightarrow> IndexFunc i = anonIndexFunc"
    using Cons.prems(1) by (auto simp: update_conv' split: if_splits)
  from Cons.prems(2) fi have "map_of (registerFields tagGet fs ?idx) k = Some i" by simp
  from Cons.IH [OF inv this] show ?case .
qed

lemma newStorer_IndexFunc:
  assumes "newStorer tagGet (Reflected tp) = Inr st" and "map_of (Indexes st) k = Some i"
  shows "IndexFunc i = anonIndexFunc"
proof -
  from assms have "map_of (registerFields tagGet (Fields (derefType tp)) []) k = Some i"
    by (auto simp: Let_def split: if_splits)
  then show ?thesis by (rule registerFields_IndexFunc [rotated]) simp
qed

text \<open>
  Claim C10. \<open>Open\<close> assigns the encoder and decoder of its options to the package's
  variables, and the index functions that \<open>newStorer\<close> builds encode with the
  package's \<open>encode\<close> of the moment they are called. So after two calls of \<open>Open\<close>
  every index extraction, whichever store it serves, uses the encoder of the second
  call; between the two calls it used that of the first.
\<close>

theorem Open_rebinds_index_codec:
  assumes "Open badgerOpen1 options1 g0 = (r1, g1)"
    and "Open badgerOpen2 options2 g1 = (r2, g2)"
    and "newStorer tagGet (Reflected tp) = Inr st"
    and "map_of (Indexes st) name = Some idx"
  shows "encode g1 = Encoder options1 \<and> encode g2 = Encoder options2
       \<and> decode g2 = Decoder options2
       \<and> IndexFunc idx g1 name v =
           (case fieldInterface name v of Inl p \<Rightarrow> Inl p | Inr x \<Rightarrow> Inr (Encoder options1 x))
       \<and> IndexFunc idx g2 name v =
           (case fieldInterface name v of Inl p \<Rightarrow> Inl p | Inr x \<Rightarrow> Inr (Encoder options2 x))"
proof -
  from assms(1) have 1: "g1 = g0\<lparr>encode := Encoder options1, decode := Decoder options1\<rparr>"
    by (auto simp: Open_def Let_def split: sum.splits)
  from assms(2) have 2: "g2 = g1\<lparr>encode := Encoder options2, decode := Decoder options2\<rparr>"
    by (auto simp: Open_def Let_def split: sum.splits)
  from newStorer_IndexFunc [OF assms(3,4)] 1 2 show ?thesis
    by (simp add: anonIndexFunc_def split: sum.splits)
qed

lemma newStorer_userType:
  "newStorer Get (Reflected userType) =
   Inr (anonStorer userType
     [(''Name'', \<lparr>IndexFunc = anonIndexFunc, Unique = False\<rparr>),
      (''Email'', \<lparr>IndexFunc = anonIndexFunc, Unique = True\<rparr>)])"
  by (simp add: userType_def userFields_def fieldIndex_def HoldIndexTag_def holdPrefixTag_def
      holdPrefixIndexValue_def holdPrefixUniqueValue_def
      Get_def Lookup.simps nameChar_def unquoteContent_def)

lemma encodeKey_k1:
  "encodeKey textEncode (VString ''k1'') ''User'' = Inr (bytesOf ''bh_Userk1'')"
  by (simp add: encodeKey_def textEncode_def typePrefix_def bytesOf_def)


lemma indexDelete_user:
  "indexDelete textGlobals
     (anonStorer userType
       [(''Name'', \<lparr>IndexFunc = anonIndexFunc, Unique = False\<rparr>),
        (''Email'', \<lparr>IndexFunc = anonIndexFunc, Unique = True\<rparr>)])
     (userTxn\<lparr>pending := (pending userTxn)(bytesOf ''bh_Userk1'' := None)\<rparr>)
     (bytesOf ''bh_Userk1'') (snd (nameDecode (bytesOf ''ann'') zeroUser)) =
   Inr (None, userTxn\<lparr>pending := (pending userTxn)
      (bytesOf ''bh_Userk1'' := None,
       indexKey ''User'' ''Name'' False (bytesOf ''ann'') (bytesOf ''bh_Userk1'') := None,
       indexKey ''User'' ''Email'' True [] (bytesOf ''bh_Userk1'') := None)\<rparr>)"
  by (simp add: indexDelete_def userType_def anonIndexFunc_def nameDecode_def zeroUser_def
      textGlobals_def textEncode_def txDelete_def userTxn_def indexKey_def bytesOf_def)

lemma indexDeleteAll_user:
  "pending tx = [bytesOf ''bh_Userk1'' \<mapsto> bytesOf ''ann''] \<Longrightarrow> update tx \<Longrightarrow> \<not> discarded tx \<Longrightarrow>
   indexDelete textGlobals
     (anonStorer userType
       [(''Name'', \<lparr>IndexFunc = anonIndexFunc, Unique = False\<rparr>),
        (''Email'', \<lparr>IndexFunc = anonIndexFunc, Unique = True\<rparr>)])
     (tx\<lparr>pending := (pending tx)(bytesOf ''bh_Userk1'' := None)\<rparr>)
     (bytesOf ''bh_Userk1'') (snd (nameDecode (bytesOf ''ann'') zeroUser)) =
   Inr (None, tx\<lparr>pending := (pending tx)
      (bytesOf ''bh_Userk1'' := None,
       indexKey ''User'' ''Name'' False (bytesOf ''ann'') (bytesOf ''bh_Userk1'') := None,
       indexKey ''User'' ''Email'' True [] (bytesOf ''bh_Userk1'') := None)\<rparr>)"
  by (simp add: indexDelete_def userType_def anonIndexFunc_def nameDecode_def zeroUser_def
      textGlobals_def textEncode_def txDelete_def indexKey_def bytesOf_def)

theorem Open_rebinds_index_codec_witness:
  "IndexFunc \<lparr>IndexFunc = anonIndexFunc, Unique = False\<rparr>
     (snd (Open (\<lambda>opts. Inr quietDB)
             \<lparr>Encoder = quotedEncode, Decoder = quotedDecode, SequenceBandwith = 100, badgerOptions = ()\<rparr>
        (snd (Open (\<lambda>opts. Inr quietDB)
             \<lparr>Encoder = textEncode, Decoder = textDecode, SequenceBandwith = 100, badgerOptions = ()\<rparr>
             textGlobals))))
     ''Name'' (VStruct ''User'' [(''Name'', True, VString ''ann'')]) =
   Inr (Inr (bytesOf ''\"ann\"''))"
proof -
  have i: "map_of (Indexes (anonStorer userType
       [(''Name'', \<lparr>IndexFunc = anonIndexFunc, Unique = False\<rparr>),
        (''Email'', \<lparr>IndexFunc = anonIndexFunc, Unique = True\<rparr>)])) ''Name'' =
      Some \<lparr>IndexFunc = anonIndexFunc, Unique = False\<rparr>"
    by simp
  let ?o1 = "\<lparr>Encoder = textEncode, Decoder = textDecode, SequenceBandwith = 100,
      badgerOptions = ()\<rparr>"
  let ?o2 = "\<lparr>Encoder = quotedEncode, Decoder = quotedDecode, SequenceBandwith = 100,
      badgerOptions = ()\<rparr>"
  let ?g1 = "snd (Open (\<lambda>opts. Inr quietDB) ?o1 textGlobals)"
  have 1: "Open (\<lambda>opts. Inr quietDB) ?o1 textGlobals =
      (fst (Open (\<lambda>opts. Inr quietDB) ?o1 textGlobals), ?g1)"
    by simp
  have 2: "Open (\<lambda>opts. Inr quietDB) ?o2 ?g1 =
      (fst (Open (\<lambda>opts. Inr quietDB) ?o2 ?g1), snd (Open (\<lambda>opts. Inr quietDB) ?o2 ?g1))"
    by simp
  from Open_rebinds_index_codec [OF 1 2 newStorer_userType i,
      of "VStruct ''User'' [(''Name'', True, VString ''ann'')]"]
  show ?thesis by (simp add: quotedEncode_def)
qed


section \<open>Properties of deletion\<close>

lemma encodeKey_nonempty: "encodeKey enc key T = Inr gk \<Longrightarrow> gk \<noteq> []"
  by (auto simp: encodeKey_def typePrefix_def bytesOf_def split: sum.splits)

lemma TxDelete_absent:
  assumes "newStorer tagGet dataType = Inr storer"
    and "encodeKey enc key (Type storer) = Inr gk"
    and "\<not> discarded tx" and "pending tx gk = None"
  shows "TxDelete idxDel tagGet enc dec tx key dataType fresh = Inr (Some ErrNotFound, tx)"
  using assms encodeKey_nonempty [OF assms(2)]
  by (simp add: TxDelete_def txGet_def)

lemma TxDelete_present:
  assumes "newStorer tagGet dataType = Inr storer"
    and "encodeKey enc key (Type storer) = Inr gk"
    and "\<not> discarded tx" and "update tx" and "pending tx gk = Some bVal"
  shows "TxDelete idxDel tagGet enc dec tx key dataType fresh =
         idxDel storer (tx\<lparr>pending := (pending tx)(gk := None)\<rparr>) gk (snd (dec bVal fresh))"
  using assms encodeKey_nonempty [OF assms(2)]
  by (simp add: TxDelete_def txGet_def txDelete_def Let_def)

text \<open>
  Claim C3. Let the sample value have a descriptor and the key an encoding \<open>gk\<close>.
  When \<open>gk\<close> is absent, \<open>TxDelete\<close> returns \<open>ErrNotFound\<close> and leaves the transaction
  as it was, and \<open>Delete\<close> returns \<open>ErrNotFound\<close> and leaves the store as it was. When
  \<open>gk\<close> is present (and the caller's transaction may write), \<open>TxDelete\<close> decodes the
  stored record, deletes the entry of \<open>gk\<close> and hands the same transaction, with the
  descriptor, \<open>gk\<close> and the old record, to the removal of the index entries, whose result
  it returns; \<open>Delete\<close> does the same in one read-write transaction of its own.
\<close>

theorem Delete_absent_or_present:
  assumes st: "newStorer tagGet dataType = Inr storer"
    and gk: "encodeKey enc key (Type storer) = Inr gk"
  shows "(\<not> discarded tx \<and> pending tx gk = None \<longrightarrow>
            TxDelete idxDel tagGet enc dec tx key dataType fresh = Inr (Some ErrNotFound, tx))
       \<and> (kv (db s) gk = None \<longrightarrow>
            Delete idxDel tagGet enc dec s key dataType fresh = Inr (Some ErrNotFound, s))
       \<and> (\<not> discarded tx \<and> update tx \<and> pending tx gk = Some bVal \<longrightarrow>
            TxDelete idxDel tagGet enc dec tx key dataType fresh =
            idxDel storer (tx\<lparr>pending := (pending tx)(gk := None)\<rparr>) gk (snd (dec bVal fresh)))
       \<and> (kv (db s) gk = Some bVal \<longrightarrow>
            Delete idxDel tagGet enc dec s key dataType fresh =
            (case Update (db s)
                    (\<lambda>tx. idxDel storer (tx\<lparr>pending := (pending tx)(gk := None)\<rparr>) gk
                            (snd (dec bVal fresh))) of
               Inl p \<Rightarrow> Inl p
             | Inr (err, d') \<Rightarrow> Inr (err, s\<lparr>db := d'\<rparr>)))"
proof (intro conjI impI)
  assume "\<not> discarded tx \<and> pending tx gk = None"
  then show "TxDelete idxDel tagGet enc dec tx key dataType fresh = Inr (Some ErrNotFound, tx)"
    using TxDelete_absent [OF st gk] by simp
next
  assume a: "kv (db s) gk = None"
  let ?tx = "\<lparr>pending = kv (db s), update = True, discarded = False\<rparr>"
  have "TxDelete idxDel tagGet enc dec ?tx key dataType fresh = Inr (Some ErrNotFound, ?tx)"
    using a by (intro TxDelete_absent [OF st gk]) simp_all
  then show "Delete idxDel tagGet enc dec s key dataType fresh = Inr (Some ErrNotFound, s)"
    by (simp add: Delete_def Update_def)
next
  assume "\<not> discarded tx \<and> update tx \<and> pending tx gk = Some bVal"
  then show "TxDelete idxDel tagGet enc dec tx key dataType fresh =
      idxDel storer (tx\<lparr>pending := (pending tx)(gk := None)\<rparr>) gk (snd (dec bVal fresh))"
    using TxDelete_present [OF st gk] by simp
next
  assume a: "kv (db s) gk = Some bVal"
  let ?tx = "\<lparr>pending = kv (db s), update = True, discarded = False\<rparr>"
  have "TxDelete idxDel tagGet enc dec ?tx key dataType fresh =
      idxDel storer (?tx\<lparr>pending := (pending ?tx)(gk := None)\<rparr>) gk (snd (dec bVal fresh))"
    using a by (intro TxDelete_present [OF st gk]) simp_all
  then show "Delete idxDel tagGet enc dec s key dataType fresh =
      (case Update (db s)
              (\<lambda>tx. idxDel storer (tx\<lparr>pending := (pending tx)(gk := None)\<rparr>) gk
                      (snd (dec bVal fresh))) of
         Inl p \<Rightarrow> Inl p
       | Inr (err, d') \<Rightarrow> Inr (err, s\<lparr>db := d'\<rparr>))"
    by (simp add: Delete_def Update_def)
qed

theorem Delete_absent_or_present_witness:
  "TxDelete (indexDelete textGlobals) Get textEncode nameDecode emptyTxn (VString ''k1'')
      (Reflected userType) zeroUser = Inr (Some ErrNotFound, emptyTxn)
   \<and> Delete (indexDelete textGlobals) Get textEncode nameDecode userStore (VString ''k1'')
      (Reflected userType) zeroUser = Inr (Some ErrNotFound, userStore)
   \<and> TxDelete (indexDelete textGlobals) Get textEncode nameDecode userTxn (VString ''k1'')
      (Reflected userType) zeroUser =
     Inr (None, userTxn\<lparr>pending := (pending userTxn)
      (bytesOf ''bh_Userk1'' := None,
       indexKey ''User'' ''Name'' False (bytesOf ''ann'') (bytesOf ''bh_Userk1'') := None,
       indexKey ''User'' ''Email'' True [] (bytesOf ''bh_Userk1'') := None)\<rparr>)
   \<and> (\<exists>s'. Delete (indexDelete textGlobals) Get textEncode nameDecode annStore (VString ''k1'')
      (Reflected userType) zeroUser = Inr (None, s')
      \<and> kv (db s') (bytesOf ''bh_Userk1'') = None \<and> calls (db s') = [(CommitCall, Inr 0)])"
proof -
  have gk: "encodeKey textEncode (VString ''k1'')
      (Type (anonStorer userType
       [(''Name'', \<lparr>IndexFunc = anonIndexFunc, Unique = False\<rparr>),
        (''Email'', \<lparr>IndexFunc = anonIndexFunc, Unique = True\<rparr>)])) = Inr (bytesOf ''bh_Userk1'')"
    using encodeKey_k1 by (simp add: userType_def)
  have tx: "\<not> discarded userTxn \<and> update userTxn
      \<and> pending userTxn (bytesOf ''bh_Userk1'') = Some (bytesOf ''ann'')"
    by (simp add: userTxn_def)
  have etx: "\<not> discarded emptyTxn \<and> pending emptyTxn (bytesOf ''bh_Userk1'') = None"
    by (simp add: emptyTxn_def)
  have s: "kv (db userStore) (bytesOf ''bh_Userk1'') = None"
    by (simp add: userStore_def quietDB_def)
  have a: "kv (db annStore) (bytesOf ''bh_Userk1'') = Some (bytesOf ''ann'')"
    by (simp add: annStore_def)
  let ?st = "anonStorer userType
           [(''Name'', \<lparr>IndexFunc = anonIndexFunc, Unique = False\<rparr>),
            (''Email'', \<lparr>IndexFunc = anonIndexFunc, Unique = True\<rparr>)]"
  let ?tx0 = "\<lparr>pending = kv (db annStore), update = True, discarded = False\<rparr>"
  have f: "indexDelete textGlobals ?st
         (?tx0\<lparr>pending := (pending ?tx0)(bytesOf ''bh_Userk1'' := None)\<rparr>)
         (bytesOf ''bh_Userk1'') (snd (nameDecode (bytesOf ''ann'') zeroUser)) =
      Inr (None, ?tx0\<lparr>pending := (pending ?tx0)
        (bytesOf ''bh_Userk1'' := None,
         indexKey ''User'' ''Name'' False (bytesOf ''ann'') (bytesOf ''bh_Userk1'') := None,
         indexKey ''User'' ''Email'' True [] (bytesOf ''bh_Userk1'') := None)\<rparr>)"
    by (rule indexDeleteAll_user) (simp_all add: annStore_def)
  have c: "engineCall (db annStore) CommitCall =
      (Inr 0, (db annStore)\<lparr>calls := [(CommitCall, Inr 0)]\<rparr>)"
    by (simp add: engineCall_def Let_def annStore_def quietDB_def)
  have u: "\<exists>d'. Update (db annStore)
      (\<lambda>tx. indexDelete textGlobals ?st
         (tx\<lparr>pending := (pending tx)(bytesOf ''bh_Userk1'' := None)\<rparr>)
         (bytesOf ''bh_Userk1'') (snd (nameDecode (bytesOf ''ann'') zeroUser))) = Inr (None, d')
      \<and> kv d' (bytesOf ''bh_Userk1'') = None \<and> calls d' = [(CommitCall, Inr 0)]"
    unfolding Update_def by (simp only: f c) simp
  from Delete_absent_or_present [OF newStorer_userType gk,
      where tx = emptyTxn and idxDel = "indexDelete textGlobals" and dec = nameDecode
        and fresh = zeroUser and s = userStore and bVal = "bytesOf ''ann''"] etx s
  have 1: "TxDelete (indexDelete textGlobals) Get textEncode nameDecode emptyTxn (VString ''k1'')
      (Reflected userType) zeroUser = Inr (Some ErrNotFound, emptyTxn)
   \<and> Delete (indexDelete textGlobals) Get textEncode nameDecode userStore (VString ''k1'')
      (Reflected userType) zeroUser = Inr (Some ErrNotFound, userStore)"
    by simp
  from Delete_absent_or_present [OF newStorer_userType gk,
      where tx = userTxn and idxDel = "indexDelete textGlobals" and dec = nameDecode
        and fresh = zeroUser and s = annStore and bVal = "bytesOf ''ann''"] tx a
    indexDelete_user
  have 2: "TxDelete (indexDelete textGlobals) Get textEncode nameDecode userTxn (VString ''k1'')
      (Reflected userType) zeroUser =
     Inr (None, userTxn\<lparr>pending := (pending userTxn)
      (bytesOf ''bh_Userk1'' := None,
       indexKey ''User'' ''Name'' False (bytesOf ''ann'') (bytesOf ''bh_Userk1'') := None,
       indexKey ''User'' ''Email'' True [] (bytesOf ''bh_Userk1'') := None)\<rparr>)
   \<and> (\<exists>s'. Delete (indexDelete textGlobals) Get textEncode nameDecode annStore (VString ''k1'')
      (Reflected userType) zeroUser = Inr (None, s')
      \<and> kv (db s') (bytesOf ''bh_Userk1'') = None \<and> calls (db s') = [(CommitCall, Inr 0)])"
    using u by auto
  from 1 2 show ?thesis by simp
qed

text \<open>
  Claim C9. When the decoder fails on the stored bytes of a present record, \<open>TxDelete\<close>
  does not return its error: the entry of the record is deleted and the removal of the
  index entries runs on whatever the decoder left in the target. In general \<open>TxDelete\<close>
  behaves as if the decoder never reported an error.
\<close>

theorem TxDelete_decode_error_dropped:
  assumes "newStorer tagGet dataType = Inr storer"
    and "encodeKey enc key (Type storer) = Inr gk"
    and "\<not> discarded tx" and "update tx" and "pending tx gk = Some bVal"
    and "dec bVal fresh = (Some err, partial)"
  shows "TxDelete idxDel tagGet enc dec tx key dataType fresh =
           idxDel storer (tx\<lparr>pending := (pending tx)(gk := None)\<rparr>) gk partial
       \<and> TxDelete idxDel tagGet enc dec tx key dataType fresh =
           TxDelete idxDel tagGet enc (\<lambda>b old. (None, snd (dec b old))) tx key dataType fresh"
  using TxDelete_present [OF assms(1-5), of idxDel dec fresh]
    TxDelete_present [OF assms(1-5), of idxDel "\<lambda>b old. (None, snd (dec b old))" fresh]
    assms(6)
  by simp

theorem TxDelete_decode_error_dropped_witness:
  "TxDelete (indexDelete textGlobals) Get textEncode quotedDecode userTxn (VString ''k1'')
      (Reflected userType) zeroUser =
   indexDelete textGlobals
     (anonStorer userType
       [(''Name'', \<lparr>IndexFunc = anonIndexFunc, Unique = False\<rparr>),
        (''Email'', \<lparr>IndexFunc = anonIndexFunc, Unique = True\<rparr>)])
     (userTxn\<lparr>pending := (pending userTxn)(bytesOf ''bh_Userk1'' := None)\<rparr>)
     (bytesOf ''bh_Userk1'') zeroUser
   \<and> quotedDecode (bytesOf ''ann'') zeroUser = (Some (CodecError ''quoted: syntax''), zeroUser)"
proof -
  have gk: "encodeKey textEncode (VString ''k1'')
      (Type (anonStorer userType
       [(''Name'', \<lparr>IndexFunc = anonIndexFunc, Unique = False\<rparr>),
        (''Email'', \<lparr>IndexFunc = anonIndexFunc, Unique = True\<rparr>)])) = Inr (bytesOf ''bh_Userk1'')"
    using encodeKey_k1 by (simp add: userType_def)
  have d: "quotedDecode (bytesOf ''ann'') zeroUser = (Some (CodecError ''quoted: syntax''), zeroUser)"
    by (simp add: quotedDecode_def bytesOf_def)
  have "\<not> discarded userTxn" "update userTxn"
    "pending userTxn (bytesOf ''bh_Userk1'') = Some (bytesOf ''ann'')"
    by (simp_all add: userTxn_def)
  from TxDelete_decode_error_dropped [where dec = quotedDecode and fresh = zeroUser
      and idxDel = "indexDelete textGlobals", OF newStorer_userType gk this d] d
  show ?thesis by simp
qed

section \<open>Properties of the sequences\<close>

lemma engineCall_calls: "engineCall d c = (r, d') \<Longrightarrow> calls d' = calls d @ [(c, r)]"
  by (auto simp: engineCall_def Let_def)

lemma engineCall_answers: "engineCall d c = (r, d') \<Longrightarrow> r = answers d (calls d) c"
  by (auto simp: engineCall_def Let_def)

lemma callsSince_append: "calls d' = calls d @ new \<Longrightarrow> callsSince d d' = new"
  by (simp add: callsSince_def)

lemma GetSequence_ok:
  "answers d (calls d) (GetSequenceCall key bw) = Inr x \<Longrightarrow>
   GetSequence d key bw =
     (Inr (length (calls d)), d\<lparr>calls := calls d @ [(GetSequenceCall key bw, Inr x)]\<rparr>)"
  by (simp add: GetSequence_def engineCall_def Let_def)

lemma Next_calls:
  "Next d seq = (r, d') \<Longrightarrow> calls d' = calls d @ [(NextCall seq, r)]"
  unfolding Next_def by (rule engineCall_calls)

lemma getSequence_first:
  assumes none: "map_of (sequences s) T = None"
    and ok: "answers (db s) (calls (db s)) (GetSequenceCall (bytesOf T) (sequenceBandwith s)) = Inr x"
    and res: "getSequence s T = (r, s')"
  shows "map_of (sequences s') T = Some (length (calls (db s)))
       \<and> map fst (callsSince (db s) (db s')) =
           [GetSequenceCall (bytesOf T) (sequenceBandwith s), NextCall (length (calls (db s)))]"
proof -
  let ?h = "length (calls (db s))"
  let ?c = "GetSequenceCall (bytesOf T) (sequenceBandwith s)"
  let ?d1 = "(db s)\<lparr>calls := calls (db s) @ [(?c, Inr x)]\<rparr>"
  obtain r2 d2 where n: "Next ?d1 ?h = (r2, d2)" by (cases "Next ?d1 ?h")
  from res none GetSequence_ok [OF ok] n
  have s': "s' = s\<lparr>db := d2, sequences := AList.update T ?h (sequences s)\<rparr>"
    by (simp add: getSequence_def)
  from Next_calls [OF n] have "calls d2 = calls (db s) @ [(?c, Inr x), (NextCall ?h, r2)]"
    by simp
  then have "callsSince (db s) d2 = [(?c, Inr x), (NextCall ?h, r2)]"
    by (rule callsSince_append)
  with s' show ?thesis by (simp add: update_conv')
qed

lemma getSequence_later:
  assumes some: "map_of (sequences s) T = Some seq"
    and res: "getSequence s T = (r, s')"
  shows "sequences s' = sequences s \<and> map fst (callsSince (db s) (db s')) = [NextCall seq]"
proof -
  obtain r2 d2 where n: "Next (db s) seq = (r2, d2)" by (cases "Next (db s) seq")
  from res some n have s': "s' = s\<lparr>db := d2\<rparr>" by (simp add: getSequence_def)
  from Next_calls [OF n] have "callsSince (db s) d2 = [(NextCall seq, r2)]"
    by (intro callsSince_append) simp
  with s' show ?thesis by simp
qed

lemma getSequence_keeps:
  assumes some: "map_of (sequences s) T = Some seq"
    and res: "getSequence s T' = (r, s')"
  shows "map_of (sequences s') T = Some seq"
proof (cases "map_of (sequences s) T'")
  case None
  with some have ne: "T' \<noteq> T" by auto
  obtain g d1 where g: "GetSequence (db s) (bytesOf T') (sequenceBandwith s) = (g, d1)"
    by (cases "GetSequence (db s) (bytesOf T') (sequenceBandwith s)")
  show ?thesis
  proof (cases g)
    case (Inl err)
    with res None g have "s' = s\<lparr>db := d1\<rparr>" by (simp add: getSequence_def)
    with some show ?thesis by simp
  next
    case (Inr newSeq)
    obtain r2 d2 where n: "Next d1 newSeq = (r2, d2)" by (cases "Next d1 newSeq")
    from res None g Inr n
    have "s' = s\<lparr>db := d2, sequences := AList.update T' newSeq (sequences s)\<rparr>"
      by (simp add: getSequence_def)
    with some ne show ?thesis by (simp add: update_conv')
  qed
next
  case (Some seq')
  from getSequence_later [OF Some res] some show ?thesis by simp
qed

lemma Release_ok:
  "answers d (calls d) (ReleaseCall seq) = Inr x \<Longrightarrow>
   Release d seq = (None, d\<lparr>calls := calls d @ [(ReleaseCall seq, Inr x)]\<rparr>)"
  by (simp add: Release_def engineCall_def Let_def)

lemma Release_err:
  "answers d (calls d) (ReleaseCall seq) = Inl err \<Longrightarrow>
   Release d seq = (Some err, d\<lparr>calls := calls d @ [(ReleaseCall seq, Inl err)]\<rparr>)"
  by (simp add: Release_def engineCall_def Let_def)

lemma releaseAll_succeed:
  "releasesSucceed (answers d) (calls d) (map snd seqs) \<Longrightarrow>
   \<exists>new. releaseAll seqs d = (None, d\<lparr>calls := calls d @ new\<rparr>)
     \<and> map fst new = map (\<lambda>(T, seq). ReleaseCall seq) seqs"
proof (induction seqs arbitrary: d)
  case Nil
  have "releaseAll [] d = (None, d\<lparr>calls := calls d @ []\<rparr>)" by simp
  then show ?case by (intro exI [of _ "[]"]) simp
next
  case (Cons a seqs)
  obtain T seq where a: "a = (T, seq)" by (cases a)
  from Cons.prems a obtain x where x: "answers d (calls d) (ReleaseCall seq) = Inr x"
    and rest: "releasesSucceed (answers d) (calls d @ [(ReleaseCall seq, Inr x)]) (map snd seqs)"
    by (auto split: sum.splits)
  let ?d1 = "d\<lparr>calls := calls d @ [(ReleaseCall seq, Inr x)]\<rparr>"
  from rest have "releasesSucceed (answers ?d1) (calls ?d1) (map snd seqs)" by simp
  from Cons.IH [OF this] obtain new where
    new: "releaseAll seqs ?d1 = (None, ?d1\<lparr>calls := calls ?d1 @ new\<rparr>)"
      "map fst new = map (\<lambda>(T, seq). ReleaseCall seq) seqs"
    by blast
  let ?new = "(ReleaseCall seq, Inr x) # new"
  have 1: "releaseAll (a # seqs) d = (None, d\<lparr>calls := calls d @ ?new\<rparr>)"
    using a Release_ok [OF x] new(1) by simp
  have 2: "map fst ?new = map (\<lambda>(T, seq). ReleaseCall seq) (a # seqs)"
    using a new(2) by simp
  from 1 2 show ?case by blast
qed

lemma releaseAll_fail:
  "\<not> releasesSucceed (answers d) (calls d) (map snd seqs) \<Longrightarrow>
   \<exists>new n err. releaseAll seqs d = (Some err, d\<lparr>calls := calls d @ new\<rparr>)
     \<and> n < length seqs
     \<and> map fst new = map (\<lambda>(T, seq). ReleaseCall seq) (take (Suc n) seqs)"
proof (induction seqs arbitrary: d)
  case Nil
  then show ?case by simp
next
  case (Cons a seqs)
  obtain T seq where a: "a = (T, seq)" by (cases a)
  show ?case
  proof (cases "answers d (calls d) (ReleaseCall seq)")
    case (Inl err)
    let ?new = "[(ReleaseCall seq, Inl err :: error + 64 word)]"
    have 1: "releaseAll (a # seqs) d = (Some err, d\<lparr>calls := calls d @ ?new\<rparr>)"
      using a Release_err [OF Inl] by simp
    have 2: "0 < length (a # seqs)" by simp
    have 3: "map fst ?new = map (\<lambda>(T, seq). ReleaseCall seq) (take (Suc 0) (a # seqs))"
      using a by simp
    from 1 2 3 show ?thesis by blast
  next
    case (Inr x)
    let ?d1 = "d\<lparr>calls := calls d @ [(ReleaseCall seq, Inr x)]\<rparr>"
    from Cons.prems a Inr
    have "\<not> releasesSucceed (answers ?d1) (calls ?d1) (map snd seqs)" by simp
    from Cons.IH [OF this] obtain new n err where
      new: "releaseAll seqs ?d1 = (Some err, ?d1\<lparr>calls := calls ?d1 @ new\<rparr>)"
        "n < length seqs"
        "map fst new = map (\<lambda>(T, seq). ReleaseCall seq) (take (Suc n) seqs)"
      by blast
    let ?new = "(ReleaseCall seq, Inr x) # new"
    have 1: "releaseAll (a # seqs) d = (Some err, d\<lparr>calls := calls d @ ?new\<rparr>)"
      using a Release_ok [OF Inr] new(1) by simp
    have 2: "Suc n < length (a # seqs)" using new(2) by simp
    have 3: "map fst ?new = map (\<lambda>(T, seq). ReleaseCall seq) (take (Suc (Suc n)) (a # seqs))"
      using a new(3) by simp
    from 1 2 3 show ?thesis by blast
  qed
qed

lemma CloseDB_calls:
  "CloseDB d = (r, d') \<Longrightarrow> \<exists>a. calls d' = calls d @ [(CloseCall, a)]"
  by (cases "answers d (calls d) CloseCall")
     (auto simp: CloseDB_def engineCall_def Let_def)

lemma Close_succeed:
  assumes "releasesSucceed (answers (db s)) (calls (db s)) (map snd (sequences s))"
  shows "map fst (callsSince (db s) (db (snd (Close s)))) =
           map (\<lambda>(T, seq). ReleaseCall seq) (sequences s) @ [CloseCall]
       \<and> sequences (snd (Close s)) = sequences s"
proof -
  from releaseAll_succeed [OF assms] obtain new where
    new: "releaseAll (sequences s) (db s) = (None, (db s)\<lparr>calls := calls (db s) @ new\<rparr>)"
      "map fst new = map (\<lambda>(T, seq). ReleaseCall seq) (sequences s)"
    by blast
  let ?d1 = "(db s)\<lparr>calls := calls (db s) @ new\<rparr>"
  obtain r d2 where cl: "CloseDB ?d1 = (r, d2)" by (cases "CloseDB ?d1")
  from CloseDB_calls [OF cl] obtain a where "calls d2 = calls ?d1 @ [(CloseCall, a)]" by blast
  then have "callsSince (db s) d2 = new @ [(CloseCall, a)]"
    by (intro callsSince_append) simp
  moreover from new(1) cl have "Close s = (r, s\<lparr>db := d2\<rparr>)" by (simp add: Close_def)
  ultimately show ?thesis using new(2) by simp
qed

lemma Close_fail:
  assumes "\<not> releasesSucceed (answers (db s)) (calls (db s)) (map snd (sequences s))"
  shows "fst (Close s) \<noteq> None
       \<and> CloseCall \<notin> fst ` set (callsSince (db s) (db (snd (Close s))))
       \<and> (\<exists>n < length (sequences s). map fst (callsSince (db s) (db (snd (Close s)))) =
             map (\<lambda>(T, seq). ReleaseCall seq) (take (Suc n) (sequences s)))"
proof -
  from releaseAll_fail [OF assms] obtain new n err where
    new: "releaseAll (sequences s) (db s) = (Some err, (db s)\<lparr>calls := calls (db s) @ new\<rparr>)"
      "n < length (sequences s)"
      "map fst new = map (\<lambda>(T, seq). ReleaseCall seq) (take (Suc n) (sequences s))"
    by blast
  let ?d1 = "(db s)\<lparr>calls := calls (db s) @ new\<rparr>"
  from new(1) have c: "Close s = (Some err, s\<lparr>db := ?d1\<rparr>)" by (simp add: Close_def)
  have cs: "callsSince (db s) ?d1 = new" by (intro callsSince_append) simp
  have "CloseCall \<notin> set (map fst new)" unfolding new(3) by auto
  then have nc: "CloseCall \<notin> fst ` set new" by simp
  from c cs nc new(2,3) show ?thesis by auto
qed


text \<open>
  Claim C7. A request for a type that has no handle in the sequence map (when the
  engine grants one) asks the engine for a new handle, stores it in the map under the
  type and takes the next value from it. Once a type has a handle, every request, for
  any type, leaves that handle in the map, and a request for the type itself leaves the
  map as it is and only takes the next value from the stored handle. When the engine
  answers every release without an error, the calls of \<open>Close\<close> are the release of
  every handle of the map, in the order of the map, and then the closing of the engine,
  and nothing else. When the engine refuses a release, \<open>Close\<close> returns an error, has
  released the handles up to the refused one and does not close the engine.
\<close>

theorem sequences_created_once_released_on_Close:
  "(map_of (sequences s) T = None
      \<and> answers (db s) (calls (db s)) (GetSequenceCall (bytesOf T) (sequenceBandwith s)) = Inr x
      \<and> getSequence s T = (r, s1) \<longrightarrow>
        map_of (sequences s1) T = Some (length (calls (db s)))
      \<and> map fst (callsSince (db s) (db s1)) =
          [GetSequenceCall (bytesOf T) (sequenceBandwith s), NextCall (length (calls (db s)))])
   \<and> (map_of (sequences s) T = Some seq \<and> getSequence s T' = (r', s2) \<longrightarrow>
        map_of (sequences s2) T = Some seq
      \<and> (T' = T \<longrightarrow> sequences s2 = sequences s
            \<and> map fst (callsSince (db s) (db s2)) = [NextCall seq]))
   \<and> (releasesSucceed (answers (db s)) (calls (db s)) (map snd (sequences s)) \<longrightarrow>
        map fst (callsSince (db s) (db (snd (Close s)))) =
        map (\<lambda>(T, seq). ReleaseCall seq) (sequences s) @ [CloseCall])
   \<and> (\<not> releasesSucceed (answers (db s)) (calls (db s)) (map snd (sequences s)) \<longrightarrow>
        fst (Close s) \<noteq> None
      \<and> CloseCall \<notin> fst ` set (callsSince (db s) (db (snd (Close s))))
      \<and> (\<exists>n < length (sequences s). map fst (callsSince (db s) (db (snd (Close s)))) =
            map (\<lambda>(T, seq). ReleaseCall seq) (take (Suc n) (sequences s))))"
  using getSequence_first [of s T x r s1] getSequence_keeps [of s T seq T' r' s2]
    getSequence_later [of s T seq r' s2] Close_succeed [of s] Close_fail [of s]
  by blast

lemma Close_stuckStore:
  "map fst (callsSince (db stuckStore) (db (snd (Close stuckStore)))) =
     [ReleaseCall 0, ReleaseCall 1]"
  by (simp add: Close_def Release_def engineCall_def Let_def stuckStore_def callsSince_def)

theorem sequences_created_once_released_on_Close_witness:
  "map_of (sequences (snd (getSequence userStore ''User''))) ''User'' = Some 0
   \<and> map fst (callsSince (db userStore) (db (snd (getSequence userStore ''User'')))) =
        [GetSequenceCall (bytesOf ''User'') 100, NextCall 0]
   \<and> sequences (snd (getSequence userStore1 ''User'')) = [(''User'', 0)]
   \<and> map fst (callsSince (db userStore1) (db (snd (getSequence userStore1 ''User'')))) =
        [NextCall 0]
   \<and> map fst (callsSince (db userStore1) (db (snd (Close userStore1)))) =
        [ReleaseCall 0, CloseCall]
   \<and> fst (Close stuckStore) \<noteq> None
   \<and> CloseCall \<notin> fst ` set (callsSince (db stuckStore) (db (snd (Close stuckStore))))
   \<and> map fst (callsSince (db stuckStore) (db (snd (Close stuckStore)))) =
        [ReleaseCall 0, ReleaseCall 1]"
proof -
  have a: "map_of (sequences userStore) ''User'' = None
      \<and> answers (db userStore) (calls (db userStore))
          (GetSequenceCall (bytesOf ''User'') (sequenceBandwith userStore)) = Inr 0"
    by (simp add: userStore_def quietDB_def)
  have b: "map_of (sequences userStore1) ''User'' = Some 0"
    by (simp add: userStore1_def)
  have c: "calls (db userStore) = [] \<and> sequenceBandwith userStore = 100
      \<and> sequences userStore1 = [(''User'', 0)]"
    by (simp add: userStore_def userStore1_def quietDB_def)
  have ok: "releasesSucceed (answers (db userStore1)) (calls (db userStore1))
      (map snd (sequences userStore1))"
    by (simp add: userStore1_def quietDB_def)
  have stuck: "\<not> releasesSucceed (answers (db stuckStore)) (calls (db stuckStore))
      (map snd (sequences stuckStore))"
    by (simp add: stuckStore_def)
  have g0: "getSequence userStore ''User'' =
      (fst (getSequence userStore ''User''), snd (getSequence userStore ''User''))"
    by simp
  have g1: "getSequence userStore1 ''User'' =
      (fst (getSequence userStore1 ''User''), snd (getSequence userStore1 ''User''))"
    by simp
  from sequences_created_once_released_on_Close [where s = userStore and T = "''User''"
      and x = 0 and r = "fst (getSequence userStore ''User'')"
      and ?s1.0 = "snd (getSequence userStore ''User'')"
      and seq = 0 and T' = "''User''" and r' = "Inl ErrNotFound" and ?s2.0 = userStore]
    a g0 c
  have 1: "map_of (sequences (snd (getSequence userStore ''User''))) ''User'' = Some 0
      \<and> map fst (callsSince (db userStore) (db (snd (getSequence userStore ''User'')))) =
        [GetSequenceCall (bytesOf ''User'') 100, NextCall 0]"
    by simp
  from sequences_created_once_released_on_Close [where s = userStore1 and T = "''User''"
      and T' = "''User''" and seq = 0 and r' = "fst (getSequence userStore1 ''User'')"
      and ?s2.0 = "snd (getSequence userStore1 ''User'')"
      and x = 0 and r = "Inr 0" and ?s1.0 = userStore1]
    b g1 ok c
  have 2: "sequences (snd (getSequence userStore1 ''User'')) = [(''User'', 0)]
      \<and> map fst (callsSince (db userStore1) (db (snd (getSequence userStore1 ''User'')))) =
        [NextCall 0]
      \<and> map fst (callsSince (db userStore1) (db (snd (Close userStore1)))) =
        [ReleaseCall 0, CloseCall]"
    by simp
  from sequences_created_once_released_on_Close [where s = stuckStore and T = "''User''"
      and T' = "''User''" and seq = 0 and r' = "Inr 0" and ?s2.0 = stuckStore
      and x = 0 and r = "Inr 0" and ?s1.0 = stuckStore]
    stuck
  have 3: "fst (Close stuckStore) \<noteq> None
      \<and> CloseCall \<notin> fst ` set (callsSince (db stuckStore) (db (snd (Close stuckStore))))"
    by blast
  from 1 2 3 Close_stuckStore show ?thesis by simp
qed

section \<open>Properties of the background GC\<close>










end
